theory Spec2Isabelle
  imports Main "HOL-Library.Sublist"
begin

section \<open>Values and exceptions\<close>

text \<open>
  A Python \<open>str\<close> is modelled by the sequence of bytes of its UTF-8 encoding (\<open>string\<close>).
  Equality of two texts and splitting at an ASCII delimiter are the same on the encoded
  bytes as on the code points. Texts of the program that are not ASCII are written as
  their bytes.
\<close>

text \<open>The exceptions that the modelled code can raise or catch. \<open>ApiError\<close> is what a
  call of the language-model service raises, \<open>LibraryError\<close> what the document library
  raises when it does not accept a value as text.\<close>

datatype py_error =
    AttributeError
  | TypeError
  | ValueError
  | IndexError
  | OverflowError
  | JSONDecodeError
  | ApiError string
  | LibraryError

section \<open>The status of a dated action: \<open>get_action_status\<close>\<close>

text \<open>
  A \<open>datetime.date\<close> is represented by its proleptic Gregorian ordinal, the number
  \<open>date.toordinal()\<close> returns: 1 for 0001-01-01 and \<open>MAXORDINAL\<close> for 9999-12-31.
  Python orders dates as it orders their ordinals.
\<close>

type_synonym pydate = int

definition MAXORDINAL :: int where
  "MAXORDINAL = 3652059"

text \<open>
  \<open>today + timedelta(days=n)\<close>: the sum of the ordinal and the days, OverflowError when
  the result is not the ordinal of a date.
\<close>

definition date_add_days :: "pydate \<Rightarrow> int \<Rightarrow> py_error + pydate" where
  "date_add_days d n =
     (let ord = d + n in if 0 < ord \<and> ord \<le> MAXORDINAL then Inr ord else Inl OverflowError)"

text \<open>The display texts (UTF-8): "completed", "overdue / to be verified", "due soon",
  "in progress" and "date not set".\<close>

definition label_completed :: string where
  "label_completed =
     [CHR 0xE5, CHR 0xB7, CHR 0xB2, CHR 0xE5, CHR 0xAE, CHR 0x8C, CHR 0xE6, CHR 0x88, CHR 0x90]"

definition label_overdue :: string where
  "label_overdue =
     [CHR 0xE9, CHR 0x80, CHR 0xBE, CHR 0xE6, CHR 0x9C, CHR 0x9F, CHR 0x2F, CHR 0xE5,
      CHR 0xBE, CHR 0x85, CHR 0xE9, CHR 0xAA, CHR 0x8C, CHR 0xE8, CHR 0xAF, CHR 0x81]"

definition label_due_soon :: string where
  "label_due_soon = [CHR 0xE4, CHR 0xB8, CHR 0xB4, CHR 0xE6, CHR 0x9C, CHR 0x9F]"

definition label_in_progress :: string where
  "label_in_progress =
     [CHR 0xE8, CHR 0xBF, CHR 0x9B, CHR 0xE8, CHR 0xA1, CHR 0x8C, CHR 0xE4, CHR 0xB8, CHR 0xAD]"

definition label_date_unset :: string where
  "label_date_unset =
     [CHR 0xE6, CHR 0x97, CHR 0xA5, CHR 0xE6, CHR 0x9C, CHR 0x9F, CHR 0xE6, CHR 0x9C,
      CHR 0xAA, CHR 0xE8, CHR 0xAE, CHR 0xBE, CHR 0xE7, CHR 0xBD, CHR 0xAE]"

text \<open>
  The body of the \<open>try\<close> block. \<open>strptime\<close> stands for
  \<open>datetime.strptime(_, '%Y-%m-%d').date()\<close>, which either returns a date or raises;
  \<open>today\<close> is the value of \<open>date.today()\<close>. The comparison with \<open>today + 7 days\<close> is
  only reached when the date is not in the past, as in the source.
\<close>

definition status_by_date ::
  "(string \<Rightarrow> py_error + pydate) \<Rightarrow> pydate \<Rightarrow> string \<Rightarrow> py_error + (string \<times> string)" where
  "status_by_date strptime today action_date_str =
     (case strptime action_date_str of
        Inl e \<Rightarrow> Inl e
      | Inr action_date \<Rightarrow>
          if action_date < today then Inr (''Overdue'', label_overdue)
          else (case date_add_days today 7 of
                  Inl e \<Rightarrow> Inl e
                | Inr limit \<Rightarrow>
                    if action_date \<le> limit then Inr (''DueSoon'', label_due_soon)
                    else Inr (''Open'', label_in_progress)))"

text \<open>The function itself: the bare \<open>except\<close> turns every exception of the body into
  the pair for an unset date.\<close>

definition get_action_status ::
  "(string \<Rightarrow> py_error + pydate) \<Rightarrow> pydate \<Rightarrow> string \<Rightarrow> string \<Rightarrow> string \<times> string" where
  "get_action_status strptime today action_date_str current_status =
     (if current_status = ''Completed'' then (''Completed'', label_completed)
      else (case status_by_date strptime today action_date_str of
              Inl e \<Rightarrow> (''Open'', label_date_unset)
            | Inr r \<Rightarrow> r))"

subsection \<open>The parser \<open>strptime(_, '%Y-%m-%d')\<close>\<close>

text \<open>
  CPython matches the text against the regular expression
  \<open>(\d\d\d\d)-(1[0-2]|0[1-9]|[1-9])-(3[01]|[12]\d|0[1-9]|[1-9]| [1-9])\<close>, rejects text left
  over after the match, and builds the date, which rejects the year 0 and a day the month
  does not have. On ASCII text \<open>\d\<close> is one of the ten digits, and the definitions below
  follow the match. In text that is not ASCII, \<open>\d\<close> also matches the decimal digits of
  other scripts; what the parser returns there is left to a parameter.
\<close>

definition is_ascii :: "char \<Rightarrow> bool" where
  "is_ascii c = ((of_char c :: nat) < 128)"

definition is_digit :: "char \<Rightarrow> bool" where
  "is_digit c = (48 \<le> (of_char c :: nat) \<and> (of_char c :: nat) \<le> 57)"

definition digit_val :: "char \<Rightarrow> int" where
  "digit_val c = int (of_char c) - 48"

definition is_leap :: "int \<Rightarrow> bool" where
  "is_leap year = (year mod 4 = 0 \<and> (year mod 100 \<noteq> 0 \<or> year mod 400 = 0))"

definition days_before_year :: "int \<Rightarrow> int" where
  "days_before_year year =
     (let y = year - 1 in y * 365 + y div 4 - y div 100 + y div 400)"

definition days_in_month :: "int \<Rightarrow> int \<Rightarrow> int" where
  "days_in_month year month =
     (if month = 2 \<and> is_leap year then 29
      else [31, 28, 31, 30, 31, 30, 31, 31, 30, 31, 30, 31] ! nat (month - 1))"

definition days_before_month :: "int \<Rightarrow> int \<Rightarrow> int" where
  "days_before_month year month =
     [0, 31, 59, 90, 120, 151, 181, 212, 243, 273, 304, 334] ! nat (month - 1)
       + (if month > 2 \<and> is_leap year then 1 else 0)"

text \<open>The constructor \<open>date(year, month, day)\<close> followed by \<open>toordinal()\<close>.\<close>

definition ymd2ord :: "int \<Rightarrow> int \<Rightarrow> int \<Rightarrow> py_error + pydate" where
  "ymd2ord year month day =
     (if \<not> (1 \<le> year \<and> year \<le> 9999) then Inl ValueError
      else if \<not> (1 \<le> month \<and> month \<le> 12) then Inl ValueError
      else if \<not> (1 \<le> day \<and> day \<le> days_in_month year month) then Inl ValueError
      else Inr (days_before_year year + days_before_month year month + day))"

text \<open>The year: four digits and the hyphen after them.\<close>

fun match_year :: "string \<Rightarrow> (int \<times> string) option" where
  "match_year (a # b # c # d # sep # rest) =
     (if is_digit a \<and> is_digit b \<and> is_digit c \<and> is_digit d \<and> sep = CHR ''-''
      then Some (1000 * digit_val a + 100 * digit_val b + 10 * digit_val c + digit_val d, rest)
      else None)"
| "match_year _ = None"

text \<open>The month and the hyphen after it: a two-digit alternative first, then one digit.\<close>

definition two_digit_month :: "char \<Rightarrow> char \<Rightarrow> bool" where
  "two_digit_month a b =
     ((a = CHR ''1'' \<and> b \<in> {CHR ''0'', CHR ''1'', CHR ''2''})
      \<or> (a = CHR ''0'' \<and> is_digit b \<and> b \<noteq> CHR ''0''))"

fun match_month :: "string \<Rightarrow> (int \<times> string) option" where
  "match_month (a # b # c # rest) =
     (if two_digit_month a b \<and> c = CHR ''-'' then Some (10 * digit_val a + digit_val b, rest)
      else if is_digit a \<and> a \<noteq> CHR ''0'' \<and> b = CHR ''-'' then Some (digit_val a, c # rest)
      else None)"
| "match_month [a, b] =
     (if is_digit a \<and> a \<noteq> CHR ''0'' \<and> b = CHR ''-'' then Some (digit_val a, []) else None)"
| "match_month _ = None"

text \<open>The day: the first alternative that matches, and the text it leaves.\<close>

fun match_day :: "string \<Rightarrow> (int \<times> string) option" where
  "match_day (a # b # rest) =
     (if a = CHR ''3'' \<and> b \<in> {CHR ''0'', CHR ''1''} then Some (10 * digit_val a + digit_val b, rest)
      else if a \<in> {CHR ''1'', CHR ''2''} \<and> is_digit b then Some (10 * digit_val a + digit_val b, rest)
      else if a = CHR ''0'' \<and> is_digit b \<and> b \<noteq> CHR ''0'' then Some (digit_val b, rest)
      else if is_digit a \<and> a \<noteq> CHR ''0'' then Some (digit_val a, b # rest)
      else if a = CHR '' '' \<and> is_digit b \<and> b \<noteq> CHR ''0'' then Some (digit_val b, rest)
      else None)"
| "match_day [a] = (if is_digit a \<and> a \<noteq> CHR ''0'' then Some (digit_val a, []) else None)"
| "match_day [] = None"

text \<open>The parser: \<open>beyond_ascii\<close> is what it returns for a text that is not ASCII.\<close>

definition strptime_ymd ::
  "(string \<Rightarrow> py_error + pydate) \<Rightarrow> string \<Rightarrow> py_error + pydate" where
  "strptime_ymd beyond_ascii s =
     (if \<not> list_all is_ascii s then beyond_ascii s
      else
        (case match_year s of
           None \<Rightarrow> Inl ValueError
         | Some (year, s1) \<Rightarrow>
             (case match_month s1 of
                None \<Rightarrow> Inl ValueError
              | Some (month, s2) \<Rightarrow>
                  (case match_day s2 of
                     None \<Rightarrow> Inl ValueError
                   | Some (day, s3) \<Rightarrow>
                       if s3 \<noteq> [] then Inl ValueError else ymd2ord year month day))))"

section \<open>Parsed JSON\<close>

text \<open>
  The values \<open>json.loads\<close> returns. An object is the list of its members in order, with
  no key twice; a member is looked up with \<open>map_of\<close>. Integers and floats are not told
  apart: no modelled statement looks inside a number.
\<close>

datatype json =
    JNull
  | JBool bool
  | JNum int
  | JStr string
  | JList "json list"
  | JObj "(string \<times> json) list"

text \<open>\<open>d.get(key, dflt)\<close>: only a mapping has the method.\<close>

definition py_get :: "json \<Rightarrow> string \<Rightarrow> json \<Rightarrow> py_error + json" where
  "py_get d key dflt =
     (case d of
        JObj members \<Rightarrow> Inr (case map_of members key of Some v \<Rightarrow> v | None \<Rightarrow> dflt)
      | _ \<Rightarrow> Inl AttributeError)"

text \<open>\<open>key in d\<close> for a parsed value: a mapping that has the key.\<close>

definition json_has_key :: "json \<Rightarrow> string \<Rightarrow> bool" where
  "json_has_key d key = (case d of JObj members \<Rightarrow> map_of members key \<noteq> None | _ \<Rightarrow> False)"

text \<open>The truth value Python gives a JSON value in a condition.\<close>

fun truthy :: "json \<Rightarrow> bool" where
  "truthy JNull = False"
| "truthy (JBool b) = b"
| "truthy (JNum n) = (n \<noteq> 0)"
| "truthy (JStr s) = (s \<noteq> [])"
| "truthy (JList xs) = (xs \<noteq> [])"
| "truthy (JObj members) = (members \<noteq> [])"

text \<open>
  How the preview reads the extracted data: a scalar with
  \<open>extracted_data.get(key, "N/A")\<close>, a list of actions with
  \<open>extracted_data.get(key, [])\<close>.
\<close>

definition read_scalar :: "json \<Rightarrow> string \<Rightarrow> py_error + json" where
  "read_scalar d key = py_get d key (JStr ''N/A'')"

definition read_actions :: "json \<Rightarrow> string \<Rightarrow> py_error + json" where
  "read_actions d key = py_get d key (JList [])"

section \<open>The language-model capability\<close>

text \<open>
  A request to the chat endpoint is determined by what the prompt is built from: the report
  text (extraction, JSON mode), the extracted value (evaluation), or the language name and
  the text (translation). The capability answers with the text of the first choice, or the
  call raises. Every handler issues each request at most once, so within one run the
  capability is a function; each function below also returns the requests it issued, in
  order.
\<close>

datatype request =
    ExtractionRequest string
  | EvaluationRequest json
  | TranslationRequest string string

type_synonym capability = "request \<Rightarrow> py_error + string"

text \<open>\<open>not api_key\<close>: the key is missing (\<open>None\<close>) or empty.\<close>

definition key_missing :: "string option \<Rightarrow> bool" where
  "key_missing api_key = (api_key = None \<or> api_key = Some [])"

section \<open>Translation: \<open>translate_report\<close>\<close>

text \<open>The three choices of the language selector (UTF-8): Chinese (the default), English
  and Japanese.\<close>

definition lang_zh_default :: string where
  "lang_zh_default =
     [CHR 0xE4, CHR 0xB8, CHR 0xAD, CHR 0xE6, CHR 0x96, CHR 0x87, CHR 0x20, CHR 0x28,
      CHR 0xE9, CHR 0xBB, CHR 0x98, CHR 0xE8, CHR 0xAE, CHR 0xA4, CHR 0x29]"

definition lang_english :: string where
  "lang_english = ''English ('' @ [CHR 0xE8, CHR 0x8B, CHR 0xB1, CHR 0xE6, CHR 0x96, CHR 0x87] @ '')''"

definition lang_japanese :: string where
  "lang_japanese =
     [CHR 0xE6, CHR 0x97, CHR 0xA5, CHR 0xE6, CHR 0x9C, CHR 0xAC, CHR 0xE8, CHR 0xAA, CHR 0x9E]
       @ '' ('' @ [CHR 0xE6, CHR 0x97, CHR 0xA5, CHR 0xE6, CHR 0x96, CHR 0x87] @ '')''"

text \<open>The second component of the pair \<open>translate_report\<close> returns: the missing-key
  message, or the message that carries the exception of the call.\<close>

datatype translate_error =
    ApiKeyMissing
  | TranslateCallFailed py_error

text \<open>
  \<open>translate_report(text_data, target_lang, api_key)\<close> returns the pair
  (text or \<open>None\<close>, error or \<open>None\<close>). Creating the client object sends nothing and is taken
  not to raise. The function is given with the requests it issued.
\<close>

definition translate_report ::
  "capability \<Rightarrow> string \<Rightarrow> string \<Rightarrow> string option
     \<Rightarrow> (string option \<times> translate_error option) \<times> request list" where
  "translate_report chat text_data target_lang api_key =
     (if key_missing api_key then ((None, Some ApiKeyMissing), [])
      else if target_lang = lang_zh_default then ((Some text_data, None), [])
      else
        (let lang = (if target_lang = lang_english then ''English''
                     else if target_lang = lang_japanese then ''Japanese''
                     else target_lang);
             req = TranslationRequest lang text_data
         in case chat req of
              Inr content \<Rightarrow> ((Some content, None), [req])
            | Inl e \<Rightarrow> ((None, Some (TranslateCallFailed e)), [req])))"

section \<open>Splitting at the delimiter\<close>

text \<open>The delimiter \<open>'\n\n***AI_EVAL_SEP***\n\n'\<close>.\<close>

definition AI_EVAL_SEP :: string where
  "AI_EVAL_SEP = [CHR 0x0A, CHR 0x0A] @ ''***AI_EVAL_SEP***'' @ [CHR 0x0A, CHR 0x0A]"

text \<open>The leftmost occurrence of \<open>sep\<close> in a text: what stands before it and what stands
  after it.\<close>

fun find_sep :: "'a list \<Rightarrow> 'a list \<Rightarrow> ('a list \<times> 'a list) option" where
  "find_sep sep [] = (if sep = [] then Some ([], []) else None)"
| "find_sep sep (c # cs) =
     (if prefix sep (c # cs) then Some ([], drop (length sep) (c # cs))
      else (case find_sep sep cs of
              None \<Rightarrow> None
            | Some (before, after) \<Rightarrow> Some (c # before, after)))"

text \<open>\<open>s.split(sep, 1)\<close>: ValueError for an empty separator, else one part when \<open>sep\<close>
  does not occur and two parts around its leftmost occurrence when it does.\<close>

definition py_split1 :: "'a list \<Rightarrow> 'a list \<Rightarrow> py_error + 'a list list" where
  "py_split1 s sep =
     (if sep = [] then Inl ValueError
      else (case find_sep sep s of
              None \<Rightarrow> Inr [s]
            | Some (before, after) \<Rightarrow> Inr [before, after]))"

text \<open>\<open>s.count(sep)\<close> for a separator that is not empty: the number of occurrences that
  do not overlap, counted from the left. Each occurrence counted is looked for in the
  text after the previous one.\<close>

fun count_from :: "nat \<Rightarrow> 'a list \<Rightarrow> 'a list \<Rightarrow> nat" where
  "count_from skip sep [] = 0"
| "count_from skip sep (c # cs) =
     (if skip = 0 \<and> prefix sep (c # cs) then Suc (count_from (length sep - 1) sep cs)
      else count_from (skip - 1) sep cs)"

definition py_count :: "'a list \<Rightarrow> 'a list \<Rightarrow> nat" where
  "py_count s sep = count_from 0 sep s"

section \<open>The audit result of the session\<close>

text \<open>\<open>st.session_state.audit_result\<close>: four entries, each \<open>None\<close> at the start.\<close>

record audit_result =
  extracted_data :: "json option"
  evaluation_markdown :: "string option"
  translated_data :: "string option"
  translated_eval :: "string option"

definition initial_audit_result :: audit_result where
  "initial_audit_result =
     \<lparr>extracted_data = None, evaluation_markdown = None,
      translated_data = None, translated_eval = None\<rparr>"

text \<open>What a handler shows to the user: the error, warning and success boxes, and the
  exception that leaves the script when nothing catches it.\<close>

datatype notice =
    ErrorApiKeyMissing
  | ErrorAuditFailed py_error
  | ErrorTranslationFailed translate_error
  | WarningStructureLost
  | SuccessTranslated
  | Uncaught py_error

text \<open>A run of a handler: the audit result after it, what it showed, and the requests
  it issued.\<close>

record run =
  state_after :: audit_result
  shown :: "notice list"
  issued :: "request list"

subsection \<open>The audit button\<close>

text \<open>
  The \<open>try\<close> block of the audit: the extraction request, \<open>json.loads\<close> of its answer
  (\<open>loads\<close>, which returns the value or raises), the evaluation request on the parsed
  value. It returns the pair to store, or the exception, and the requests issued.
\<close>

definition audit_pipeline ::
  "capability \<Rightarrow> (string \<Rightarrow> py_error + json) \<Rightarrow> string
     \<Rightarrow> (py_error + json \<times> string) \<times> request list" where
  "audit_pipeline chat loads report_text =
     (case chat (ExtractionRequest report_text) of
        Inl e \<Rightarrow> (Inl e, [ExtractionRequest report_text])
      | Inr extraction_response \<Rightarrow>
          (case loads extraction_response of
             Inl e \<Rightarrow> (Inl e, [ExtractionRequest report_text])
           | Inr extracted \<Rightarrow>
               (case chat (EvaluationRequest extracted) of
                  Inl e \<Rightarrow> (Inl e, [ExtractionRequest report_text, EvaluationRequest extracted])
                | Inr evaluation \<Rightarrow>
                    (Inr (extracted, evaluation),
                     [ExtractionRequest report_text, EvaluationRequest extracted]))))"

text \<open>
  The handler: nothing happens without a report text; without a key it shows an error and
  stops; otherwise the four entries are assigned after the last statement that can raise,
  and \<open>except\<close> shows the error and assigns nothing.
\<close>

definition audit_button ::
  "capability \<Rightarrow> (string \<Rightarrow> py_error + json) \<Rightarrow> string option \<Rightarrow> string option
     \<Rightarrow> audit_result \<Rightarrow> run" where
  "audit_button chat loads report_text api_key s =
     (case report_text of
        None \<Rightarrow> \<lparr>state_after = s, shown = [], issued = []\<rparr>
      | Some text \<Rightarrow>
          if text = [] then \<lparr>state_after = s, shown = [], issued = []\<rparr>
          else if key_missing api_key
          then \<lparr>state_after = s, shown = [ErrorApiKeyMissing], issued = []\<rparr>
          else (case audit_pipeline chat loads text of
                  (Inl e, reqs) \<Rightarrow>
                    \<lparr>state_after = s, shown = [ErrorAuditFailed e], issued = reqs\<rparr>
                | (Inr (extracted, evaluation), reqs) \<Rightarrow>
                    \<lparr>state_after =
                       s\<lparr>extracted_data := Some extracted,
                         evaluation_markdown := Some evaluation,
                         translated_data := None,
                         translated_eval := None\<rparr>,
                     shown = [], issued = reqs\<rparr>))"

subsection \<open>The translate button\<close>

text \<open>
  The five values the f-string of \<open>data_markdown\<close> reads from the extracted data, in the
  order it reads them. A \<open>get\<close> on a value that is not a mapping raises AttributeError.
\<close>

definition data_markdown_values :: "json \<Rightarrow> py_error + json list" where
  "data_markdown_values extracted =
     (case py_get extracted ''D1_TeamLeader'' (JStr ''N/A'') of Inl e \<Rightarrow> Inl e | Inr leader \<Rightarrow>
      case py_get extracted ''D2_5W2H'' (JObj []) of Inl e \<Rightarrow> Inl e | Inr d2 \<Rightarrow>
      case py_get d2 ''What'' (JStr ''N/A'') of Inl e \<Rightarrow> Inl e | Inr what \<Rightarrow>
      case py_get extracted ''D4_RootCause'' (JObj []) of Inl e \<Rightarrow> Inl e | Inr d4o \<Rightarrow>
      case py_get d4o ''OccurrenceRootCause'' (JStr ''N/A'') of Inl e \<Rightarrow> Inl e | Inr occ \<Rightarrow>
      case py_get extracted ''D4_RootCause'' (JObj []) of Inl e \<Rightarrow> Inl e | Inr d4e \<Rightarrow>
      case py_get d4e ''EscapeRootCause'' (JStr ''N/A'') of Inl e \<Rightarrow> Inl e | Inr esc \<Rightarrow>
      case py_get extracted ''D8_Conclusion'' (JStr ''N/A'') of Inl e \<Rightarrow> Inl e | Inr concl \<Rightarrow>
      Inr [leader, what, occ, esc, concl])"

text \<open>
  The branch after a translation without error: the split of the translated text and the
  assignment of the two translated entries, with the warning when the split gives one part.
\<close>

definition store_translation :: "string \<Rightarrow> audit_result \<Rightarrow> audit_result \<times> notice list" where
  "store_translation translated_content s =
     (case py_split1 translated_content AI_EVAL_SEP of
        Inl e \<Rightarrow> (s, [Uncaught e])
      | Inr parts \<Rightarrow>
          if length parts = 2
          then (s\<lparr>translated_data := Some (parts ! 0), translated_eval := Some (parts ! 1)\<rparr>,
                [SuccessTranslated])
          else (s\<lparr>translated_data := None, translated_eval := Some translated_content\<rparr>,
                [WarningStructureLost, SuccessTranslated]))"

text \<open>
  The handler of the translate button. The button exists when the stored extracted data
  and evaluation are both true in a condition. \<open>fmt\<close> is the f-string that lays the five
  values out as Markdown; formatting a JSON value does not raise.
\<close>

definition translate_button ::
  "(json list \<Rightarrow> string) \<Rightarrow> capability \<Rightarrow> string \<Rightarrow> string option \<Rightarrow> audit_result \<Rightarrow> run" where
  "translate_button fmt chat target_lang_text api_key s =
     (case (extracted_data s, evaluation_markdown s) of
        (Some extracted, Some evaluation) \<Rightarrow>
          if \<not> (truthy extracted \<and> evaluation \<noteq> [])
          then \<lparr>state_after = s, shown = [], issued = []\<rparr>
          else if key_missing api_key
          then \<lparr>state_after = s, shown = [ErrorApiKeyMissing], issued = []\<rparr>
          else (case data_markdown_values extracted of
                  Inl e \<Rightarrow> \<lparr>state_after = s, shown = [Uncaught e], issued = []\<rparr>
                | Inr vals \<Rightarrow>
                    (case translate_report chat (fmt vals @ AI_EVAL_SEP @ evaluation)
                            target_lang_text api_key of
                       ((_, Some error), reqs) \<Rightarrow>
                         \<lparr>state_after = s\<lparr>translated_data := None, translated_eval := None\<rparr>,
                          shown = [ErrorTranslationFailed error], issued = reqs\<rparr>
                     | ((Some translated_content, None), reqs) \<Rightarrow>
                         (case store_translation translated_content s of
                            (s', ns) \<Rightarrow> \<lparr>state_after = s', shown = ns, issued = reqs\<rparr>)
                     | ((None, None), reqs) \<Rightarrow>
                         \<lparr>state_after = s, shown = [Uncaught AttributeError], issued = reqs\<rparr>))
      | _ \<Rightarrow> \<lparr>state_after = s, shown = [], issued = []\<rparr>)"

section \<open>The D4 section and the adoption of a suggestion\<close>

text \<open>
  The pending suggestion \<open>ai_res\<close>: the parsed answer of the analysis request, with its
  list \<open>five_whys\<close> and its \<open>root_cause\<close>. The entries are JSON values; strings are
  expected.
\<close>

record ai_res =
  five_whys :: "json list"
  root_cause :: json

text \<open>\<open>st.session_state.data['d4']\<close>: the five recorded whys, the root cause and the
  pending suggestion (\<open>None\<close> when there is none).\<close>

record d4 =
  whys :: "json list"
  root_cause :: json
  ai_analysis :: "ai_res option"

definition initial_d4 :: d4 where
  "initial_d4 =
     \<lparr>whys = [JStr [], JStr [], JStr [], JStr [], JStr []], root_cause = JStr [],
      ai_analysis = None\<rparr>"

text \<open>
  The loop \<open>for i in range(5): if i < len(five_whys): whys[i] = five_whys[i]\<close>, over the
  indices still to visit. Assigning at an index the list does not have raises IndexError.
\<close>

fun adopt_whys :: "nat list \<Rightarrow> json list \<Rightarrow> json list \<Rightarrow> py_error + json list" where
  "adopt_whys [] fw ws = Inr ws"
| "adopt_whys (i # rest) fw ws =
     (if i < length fw
      then (if i < length ws then adopt_whys rest fw (ws[i := fw ! i]) else Inl IndexError)
      else adopt_whys rest fw ws)"

text \<open>
  The handler of the adopt button. The button is drawn only while a suggestion is pending;
  without one nothing happens. An exception leaves the handler before the root cause and
  the suggestion are assigned.
\<close>

definition adopt_button :: "d4 \<Rightarrow> py_error + d4" where
  "adopt_button d =
     (case ai_analysis d of
        None \<Rightarrow> Inr d
      | Some suggestion \<Rightarrow>
          (case adopt_whys [0..<5] (five_whys suggestion) (whys d) of
             Inl e \<Rightarrow> Inl e
           | Inr ws \<Rightarrow>
               Inr (d\<lparr>whys := ws, root_cause := ai_res.root_cause suggestion,
                      ai_analysis := None\<rparr>)))"

section \<open>The Word export: \<open>create_word_document\<close>\<close>


text \<open>
  \<open>for item in value\<close>: a list gives its elements, a string its characters (one item
  per byte here; every item is a string), a mapping its keys; other values are not
  iterable.
\<close>

fun py_iter :: "json \<Rightarrow> py_error + json list" where
  "py_iter (JList xs) = Inr xs"
| "py_iter (JStr s) = Inr (map (\<lambda>c. JStr [c]) s)"
| "py_iter (JObj members) = Inr (map (\<lambda>(key, v). JStr key) members)"
| "py_iter _ = Inl TypeError"

datatype element =
    CoreRow string json
  | ActionItem json
  | VerificationLine json
  | StandardizationLine json
  | EvaluationSection string

text \<open>The keys of \<open>core_rows\<close>, each read with \<open>extracted_data.get(key, "N/A")\<close> before
  the first cell is written.\<close>

definition core_keys :: "string list" where
  "core_keys = [''D1_TeamLeader'', ''D2_Problem'', ''D4_RootCause'', ''D8_Conclusion'']"

fun read_core_rows :: "json \<Rightarrow> string list \<Rightarrow> py_error + (string \<times> json) list" where
  "read_core_rows extracted [] = Inr []"
| "read_core_rows extracted (key # keys) =
     (case py_get extracted key (JStr ''N/A'') of
        Inl e \<Rightarrow> Inl e
      | Inr content \<Rightarrow>
          (case read_core_rows extracted keys of
             Inl e \<Rightarrow> Inl e
           | Inr rows \<Rightarrow> Inr ((key, content) # rows)))"

text \<open>The loop that writes the content of each row into its cell.\<close>

fun fill_cells :: "(json \<Rightarrow> bool) \<Rightarrow> (string \<times> json) list \<Rightarrow> py_error + element list" where
  "fill_cells cell_ok [] = Inr []"
| "fill_cells cell_ok ((key, content) # rows) =
     (if \<not> cell_ok content then Inl LibraryError
      else (case fill_cells cell_ok rows of
              Inl e \<Rightarrow> Inl e
            | Inr cells \<Rightarrow> Inr (CoreRow key content # cells)))"

text \<open>
  The loop \<open>for item in ...: document.add_paragraph(item.get("action", "N/A"), ...)\<close> over
  the items still to visit: the first item that is not a mapping raises AttributeError.
\<close>

fun add_actions :: "(json \<Rightarrow> bool) \<Rightarrow> json list \<Rightarrow> py_error + element list" where
  "add_actions paragraph_ok [] = Inr []"
| "add_actions paragraph_ok (item # items) =
     (case py_get item ''action'' (JStr ''N/A'') of
        Inl e \<Rightarrow> Inl e
      | Inr text \<Rightarrow>
          if \<not> paragraph_ok text then Inl LibraryError
          else (case add_actions paragraph_ok items of
                  Inl e \<Rightarrow> Inl e
                | Inr bullets \<Rightarrow> Inr (ActionItem text # bullets)))"

text \<open>One action list: the value under the key, \<open>["N/A"]\<close> when the key is absent, and
  the loop over it.\<close>

definition action_list ::
  "(json \<Rightarrow> bool) \<Rightarrow> json \<Rightarrow> string \<Rightarrow> py_error + element list" where
  "action_list paragraph_ok extracted key =
     (case py_get extracted key (JList [JStr ''N/A'']) of
        Inl e \<Rightarrow> Inl e
      | Inr actions \<Rightarrow>
          (case py_iter actions of
             Inl e \<Rightarrow> Inl e
           | Inr items \<Rightarrow> add_actions paragraph_ok items))"

text \<open>The function. The parameters \<open>extracted\<close> and \<open>evaluation\<close> are the arguments
  \<open>extracted_data\<close> and \<open>evaluation_markdown\<close> of the source.\<close>

definition create_word_document ::
  "(json \<Rightarrow> bool) \<Rightarrow> (json \<Rightarrow> bool) \<Rightarrow> json \<Rightarrow> string \<Rightarrow> py_error + element list" where
  "create_word_document cell_ok paragraph_ok extracted evaluation =
     (case read_core_rows extracted core_keys of Inl e \<Rightarrow> Inl e | Inr core_rows \<Rightarrow>
      case fill_cells cell_ok core_rows of Inl e \<Rightarrow> Inl e | Inr cells \<Rightarrow>
      case action_list paragraph_ok extracted ''D3_ICA'' of Inl e \<Rightarrow> Inl e | Inr ica \<Rightarrow>
      case action_list paragraph_ok extracted ''D5_Actions'' of Inl e \<Rightarrow> Inl e | Inr pca \<Rightarrow>
      case py_get extracted ''D6_Verification'' (JStr ''N/A'') of Inl e \<Rightarrow> Inl e | Inr d6 \<Rightarrow>
      case py_get extracted ''D7_Standardization'' (JStr ''N/A'') of Inl e \<Rightarrow> Inl e | Inr d7 \<Rightarrow>
      Inr (cells @ ica @ pca
           @ [VerificationLine d6, StandardizationLine d7, EvaluationSection evaluation]))"


section \<open>Concrete inputs\<close>

text \<open>Inputs at which the properties below are evaluated: a capability that cannot be
  reached, one that answers every request, the JSON text of its extraction answer with
  the value \<open>json.loads\<close> gives for it, and an audit result with all four entries set.\<close>

definition capability_down :: capability where
  "capability_down req = Inl (ApiError ''connection refused'')"

definition demo_response :: string where
  "demo_response =
     [CHR 0x7B, CHR 0x22] @ ''D1_TeamLeader'' @ [CHR 0x22] @ '': '' @ [CHR 0x22] @ ''Li Wei''
       @ [CHR 0x22, CHR 0x7D]"

definition demo_extracted :: json where
  "demo_extracted = JObj [(''D1_TeamLeader'', JStr ''Li Wei'')]"

definition loads_demo :: "string \<Rightarrow> py_error + json" where
  "loads_demo s = (if s = demo_response then Inr demo_extracted else Inl JSONDecodeError)"

definition capability_demo :: capability where
  "capability_demo req =
     (case req of
        ExtractionRequest report_text \<Rightarrow> Inr demo_response
      | EvaluationRequest extracted \<Rightarrow> Inr ''## 8D audit''
      | TranslationRequest lang text_data \<Rightarrow> Inr text_data)"

definition fmt_demo :: "json list \<Rightarrow> string" where
  "fmt_demo vals = ''# core content''"

definition committed_demo :: audit_result where
  "committed_demo =
     \<lparr>extracted_data = Some demo_extracted, evaluation_markdown = Some ''## 8D audit'',
      translated_data = Some ''# core (en)'', translated_eval = Some ''## audit (en)''\<rparr>"

definition suggestion_demo :: ai_res where
  "suggestion_demo =
     \<lparr>five_whys = [JStr ''weld current low'', JStr ''setting drifted'', JStr ''no check''],
      root_cause = JStr ''no periodic check of the weld current''\<rparr>"

definition d4_demo :: d4 where
  "d4_demo =
     \<lparr>whys = [JStr ''w1'', JStr ''w2'', JStr ''w3'', JStr ''w4'', JStr ''w5''],
      root_cause = JStr ''unknown'', ai_analysis = Some suggestion_demo\<rparr>"

text \<open>
  What python-docx accepts. Setting the text of a run iterates over the value: a string
  gives its characters, a mapping its keys, a list its elements, which must be strings;
  a number, a boolean or \<open>None\<close> raises. The pieces are written as XML text, which refuses
  control characters other than tab, line feed and carriage return, and the two code
  points U+FFFE and U+FFFF. A table cell sets the text of a run; \<open>add_paragraph\<close> adds a
  run only when its text is true in a condition.
\<close>

definition xml_char_ok :: "char \<Rightarrow> bool" where
  "xml_char_ok c = (32 \<le> (of_char c :: nat) \<or> c \<in> {CHR 0x09, CHR 0x0A, CHR 0x0D})"

definition xml_text_ok :: "string \<Rightarrow> bool" where
  "xml_text_ok s =
     (list_all xml_char_ok s
      \<and> \<not> sublist [CHR 0xEF, CHR 0xBF, CHR 0xBE] s
      \<and> \<not> sublist [CHR 0xEF, CHR 0xBF, CHR 0xBF] s)"

fun docx_run_text_ok :: "json \<Rightarrow> bool" where
  "docx_run_text_ok (JStr s) = xml_text_ok s"
| "docx_run_text_ok (JObj members) = list_all (\<lambda>(key, v). xml_text_ok key) members"
| "docx_run_text_ok (JList xs) =
     list_all (\<lambda>x. case x of JStr s \<Rightarrow> xml_text_ok s | _ \<Rightarrow> False) xs"
| "docx_run_text_ok _ = False"

definition docx_paragraph_ok :: "json \<Rightarrow> bool" where
  "docx_paragraph_ok v = (\<not> truthy v \<or> docx_run_text_ok v)"


definition report_complete :: "(string \<times> json) list" where
  "report_complete =
     [(''D1_TeamLeader'', JStr ''Li Wei''),
      (''D3_ICA'', JList [JObj [(''action'', JStr ''sort the stock'')]]),
      (''D5_Actions'', JList [JObj [(''action'', JStr ''check the weld current'')]])]"

section \<open>Properties of the status resolver\<close>

text \<open>
  C4. With the stored status Completed the resolver returns the pair (Completed, the
  completed label), whatever the due-date text is (parseable or not), whatever the
  parser does with it and whatever the current date is.
\<close>

theorem get_action_status_completed:
  "get_action_status strptime today action_date_str ''Completed'' = (''Completed'', label_completed)"
  by (simp add: get_action_status_def)

lemma strptime_ymd_examples:
  "strptime_ymd beyond_ascii ''2024-06-01'' = Inr 739038"
  "strptime_ymd beyond_ascii ''2024-06-10'' = Inr 739047"
  "strptime_ymd beyond_ascii ''2024-06-15'' = Inr 739052"
  "strptime_ymd beyond_ascii ''2024-06-20'' = Inr 739057"
  "strptime_ymd beyond_ascii ''not a date'' = Inl ValueError"
  by (simp_all add: strptime_ymd_def is_ascii_def ymd2ord_def is_digit_def digit_val_def
      two_digit_month_def days_in_month_def days_before_month_def days_before_year_def
      is_leap_def)

text \<open>
  C5. For a stored status other than Completed, and a current date that is at most
  9999-12-24 (so that today + 7 days is still a date): when parsing the due-date text
  raises, the resolver returns (Open, the date-not-set label) instead of raising; when it
  gives the date \<open>due\<close>, a date before today gives (Overdue, the overdue label), a date from
  today to today + 7 days gives (DueSoon, the due-soon label), so in particular a date equal
  to today, and a later date gives (Open, the in-progress label).
\<close>

theorem get_action_status_by_date:
  assumes "current_status \<noteq> ''Completed''" and "1 \<le> today" and "today + 7 \<le> MAXORDINAL"
  shows "(\<forall>e. strptime s = Inl e \<longrightarrow>
            get_action_status strptime today s current_status = (''Open'', label_date_unset))
       \<and> (\<forall>due. strptime s = Inr due \<longrightarrow>
            (due < today \<longrightarrow>
               get_action_status strptime today s current_status = (''Overdue'', label_overdue))
          \<and> (today \<le> due \<and> due \<le> today + 7 \<longrightarrow>
               get_action_status strptime today s current_status = (''DueSoon'', label_due_soon))
          \<and> (today + 7 < due \<longrightarrow>
               get_action_status strptime today s current_status = (''Open'', label_in_progress)))
       \<and> (strptime s = Inr today \<longrightarrow>
            get_action_status strptime today s current_status = (''DueSoon'', label_due_soon))"
  using assms
  by (auto simp: get_action_status_def status_by_date_def date_add_days_def Let_def)

text \<open>The examples with today = 2024-06-10 (ordinal 739047); the texts are ASCII, so
  they hold whatever the parser does beyond ASCII.\<close>

theorem get_action_status_by_date_witness:
  "\<forall>beyond_ascii.
     ''Open'' \<noteq> ''Completed'' \<and> (1::int) \<le> 739047 \<and> (739047::int) + 7 \<le> MAXORDINAL
     \<and> strptime_ymd beyond_ascii ''2024-06-01'' = Inr 739038
     \<and> get_action_status (strptime_ymd beyond_ascii) 739047 ''2024-06-01'' ''Open''
         = (''Overdue'', label_overdue)
     \<and> strptime_ymd beyond_ascii ''2024-06-15'' = Inr 739052
     \<and> get_action_status (strptime_ymd beyond_ascii) 739047 ''2024-06-15'' ''Open''
         = (''DueSoon'', label_due_soon)
     \<and> strptime_ymd beyond_ascii ''2024-06-20'' = Inr 739057
     \<and> get_action_status (strptime_ymd beyond_ascii) 739047 ''2024-06-20'' ''Open''
         = (''Open'', label_in_progress)
     \<and> strptime_ymd beyond_ascii ''2024-06-10'' = Inr 739047
     \<and> get_action_status (strptime_ymd beyond_ascii) 739047 ''2024-06-10'' ''Open''
         = (''DueSoon'', label_due_soon)
     \<and> strptime_ymd beyond_ascii ''not a date'' = Inl ValueError
     \<and> get_action_status (strptime_ymd beyond_ascii) 739047 ''not a date'' ''Open''
         = (''Open'', label_date_unset)"
proof
  fix beyond_ascii :: "string \<Rightarrow> py_error + pydate"
  have st: "''Open'' \<noteq> ''Completed''" by simp
  have lo: "(1::int) \<le> 739047" by simp
  have hi: "(739047::int) + 7 \<le> MAXORDINAL" by (simp add: MAXORDINAL_def)
  note r = get_action_status_by_date [OF st lo hi, of "strptime_ymd beyond_ascii"]
  show "''Open'' \<noteq> ''Completed'' \<and> (1::int) \<le> 739047 \<and> (739047::int) + 7 \<le> MAXORDINAL
     \<and> strptime_ymd beyond_ascii ''2024-06-01'' = Inr 739038
     \<and> get_action_status (strptime_ymd beyond_ascii) 739047 ''2024-06-01'' ''Open''
         = (''Overdue'', label_overdue)
     \<and> strptime_ymd beyond_ascii ''2024-06-15'' = Inr 739052
     \<and> get_action_status (strptime_ymd beyond_ascii) 739047 ''2024-06-15'' ''Open''
         = (''DueSoon'', label_due_soon)
     \<and> strptime_ymd beyond_ascii ''2024-06-20'' = Inr 739057
     \<and> get_action_status (strptime_ymd beyond_ascii) 739047 ''2024-06-20'' ''Open''
         = (''Open'', label_in_progress)
     \<and> strptime_ymd beyond_ascii ''2024-06-10'' = Inr 739047
     \<and> get_action_status (strptime_ymd beyond_ascii) 739047 ''2024-06-10'' ''Open''
         = (''DueSoon'', label_due_soon)
     \<and> strptime_ymd beyond_ascii ''not a date'' = Inl ValueError
     \<and> get_action_status (strptime_ymd beyond_ascii) 739047 ''not a date'' ''Open''
         = (''Open'', label_date_unset)"
    using st lo hi strptime_ymd_examples [of beyond_ascii]
      r [of "''2024-06-01''"] r [of "''2024-06-15''"] r [of "''2024-06-20''"]
      r [of "''2024-06-10''"] r [of "''not a date''"]
    by simp
qed

text \<open>
  The bound on the current date is needed: from 9999-12-25 on, \<open>today + timedelta(days=7)\<close>
  raises OverflowError, and a parseable date that is not in the past is shown as unset.
\<close>

lemma get_action_status_last_week_of_9999:
  "get_action_status (\<lambda>s. Inr 3652058) 3652056 ''9999-12-30'' ''Open'' = (''Open'', label_date_unset)"
  by (simp add: get_action_status_def status_by_date_def date_add_days_def MAXORDINAL_def)


section \<open>Properties of the split\<close>

lemma find_sep_Some_append:
  "find_sep sep s = Some (a, b) \<Longrightarrow> s = a @ sep @ b"
proof (induction s arbitrary: a)
  case Nil
  then show ?case by (simp split: if_splits)
next
  case (Cons c cs)
  show ?case
  proof (cases "prefix sep (c # cs)")
    case True
    with Cons.prems have a: "a = []" and b: "b = drop (length sep) (c # cs)" by simp_all
    from True obtain r where r: "c # cs = sep @ r" by (auto simp: prefix_def)
    show ?thesis unfolding a b r by simp
  next
    case False
    with Cons.prems obtain a' where "find_sep sep cs = Some (a', b)" and "a = c # a'"
      by (auto split: option.splits)
    with Cons.IH show ?thesis by simp
  qed
qed

lemma find_sep_None_iff:
  "find_sep sep s = None \<longleftrightarrow> \<not> sublist sep s"
proof (induction s)
  case Nil
  then show ?case by simp
next
  case (Cons c cs)
  then show ?case
    by (auto simp: sublist_Cons_right split: option.splits)
qed

lemma find_sep_first:
  "find_sep sep s = Some (a, b) \<Longrightarrow> s = a' @ sep @ b' \<Longrightarrow> length a \<le> length a'"
proof (induction s arbitrary: a a')
  case Nil
  then show ?case by (simp split: if_splits)
next
  case (Cons c cs)
  show ?case
  proof (cases "prefix sep (c # cs)")
    case True
    with Cons.prems(1) have "a = []" by simp
    then show ?thesis by simp
  next
    case False
    with Cons.prems(1) obtain a0 where f: "find_sep sep cs = Some (a0, b)" and a: "a = c # a0"
      by (auto split: option.splits)
    from False Cons.prems(2) have "a' \<noteq> []" by (auto simp: prefix_def)
    then obtain a1 where a1: "a' = c # a1" using Cons.prems(2) by (cases a') auto
    with Cons.prems(2) have "cs = a1 @ sep @ b'" by simp
    from Cons.IH [OF f this] a a1 show ?thesis by simp
  qed
qed

lemma find_sep_before_free:
  assumes "find_sep sep s = Some (a, b)" and "sep \<noteq> []"
  shows "\<not> sublist sep a"
proof
  assume "sublist sep a"
  then obtain p q where "a = p @ sep @ q" by (auto simp: sublist_def)
  with find_sep_Some_append [OF assms(1)] have "s = p @ sep @ (q @ sep @ b)" by simp
  from find_sep_first [OF assms(1) this] \<open>a = p @ sep @ q\<close> assms(2) show False by simp
qed

lemma count_from_drop:
  "count_from k sep s = count_from 0 sep (drop k s)"
proof (induction s arbitrary: k)
  case Nil
  then show ?case by simp
next
  case (Cons c cs)
  show ?case
  proof (cases k)
    case 0
    then show ?thesis by simp
  next
    case (Suc j)
    then show ?thesis using Cons.IH [of j] by simp
  qed
qed

lemma py_count_unfold:
  assumes "sep \<noteq> []"
  shows "py_count s sep = (case find_sep sep s of None \<Rightarrow> 0 | Some (a, b) \<Rightarrow> Suc (py_count b sep))"
proof (induction s)
  case Nil
  then show ?case using assms by (simp add: py_count_def)
next
  case (Cons c cs)
  show ?case
  proof (cases "prefix sep (c # cs)")
    case True
    have "drop (length sep - 1) cs = drop (length sep) (c # cs)"
      using assms by (cases sep) auto
    with True show ?thesis
      using count_from_drop [of "length sep - 1" sep cs] by (simp add: py_count_def)
  next
    case False
    then show ?thesis using Cons.IH
      by (simp add: py_count_def split: option.splits)
  qed
qed

lemma py_count_zero_iff:
  "sep \<noteq> [] \<Longrightarrow> py_count s sep = 0 \<longleftrightarrow> \<not> sublist sep s"
  by (simp add: py_count_unfold find_sep_None_iff [symmetric] split: option.splits)

lemma AI_EVAL_SEP_not_Nil: "AI_EVAL_SEP \<noteq> []"
  by (simp add: AI_EVAL_SEP_def)


section \<open>Properties of the translation and of the audit result\<close>

lemma audit_pipeline_demo:
  "audit_pipeline capability_demo loads_demo ''report'' =
     (Inr (demo_extracted, ''## 8D audit''),
      [ExtractionRequest ''report'', EvaluationRequest demo_extracted])"
  by (simp add: audit_pipeline_def capability_demo_def loads_demo_def)

text \<open>Without a key the function returns the missing-key message and issues no
  request. Both callers test the key before they call.\<close>

lemma translate_report_without_key:
  "key_missing api_key \<Longrightarrow>
     translate_report chat text_data target_lang api_key = ((None, Some ApiKeyMissing), [])"
  by (simp add: translate_report_def)

lemma store_translation_shape:
  "\<exists>s' ns. store_translation content s = (s', ns)"
  by (cases "store_translation content s") simp

text \<open>
  C7. For every input text, a call of \<open>translate_report\<close> with the native language and
  an API key, which every caller has tested before the call, returns exactly the input
  text, with no error, and issues no request to the language-model capability. Through
  the translate button, the native language issues no request whatever the key is.
\<close>

theorem translate_report_native:
  assumes "\<not> key_missing api_key"
  shows "translate_report chat text_data lang_zh_default api_key = ((Some text_data, None), [])
       \<and> issued (translate_button fmt chat lang_zh_default any_key s) = []"
proof
  show "translate_report chat text_data lang_zh_default api_key = ((Some text_data, None), [])"
    using assms by (simp add: translate_report_def)
  show "issued (translate_button fmt chat lang_zh_default any_key s) = []"
    by (auto simp: translate_button_def translate_report_def
        split: option.splits sum.splits prod.splits)
qed

theorem translate_report_native_witness:
  "\<not> key_missing (Some ''sk-demo'')
   \<and> translate_report capability_down ''report'' lang_zh_default (Some ''sk-demo'')
       = ((Some ''report'', None), [])
   \<and> issued (translate_button fmt_demo capability_down lang_zh_default (Some ''sk-demo'')
        committed_demo) = []"
proof -
  have k: "\<not> key_missing (Some ''sk-demo'')" by (simp add: key_missing_def)
  from translate_report_native [OF k, of capability_down "''report''" fmt_demo "Some ''sk-demo''"
      committed_demo] k
  show ?thesis by simp
qed

lemma audit_result_all_updated:
  fixes s :: audit_result
  shows "s\<lparr>extracted_data := a, evaluation_markdown := b, translated_data := c, translated_eval := d\<rparr>
           = \<lparr>extracted_data = a, evaluation_markdown = b, translated_data = c, translated_eval = d\<rparr>"
  by (cases s) simp

lemma audit_button_cases:
  "audit_button chat loads report_text api_key s =
     (case report_text of
        None \<Rightarrow> \<lparr>state_after = s, shown = [], issued = []\<rparr>
      | Some text \<Rightarrow>
          if text = [] then \<lparr>state_after = s, shown = [], issued = []\<rparr>
          else if key_missing api_key
          then \<lparr>state_after = s, shown = [ErrorApiKeyMissing], issued = []\<rparr>
          else (case audit_pipeline chat loads text of
                  (Inl e, reqs) \<Rightarrow>
                    \<lparr>state_after = s, shown = [ErrorAuditFailed e], issued = reqs\<rparr>
                | (Inr (extracted, evaluation), reqs) \<Rightarrow>
                    \<lparr>state_after =
                       \<lparr>extracted_data = Some extracted, evaluation_markdown = Some evaluation,
                        translated_data = None, translated_eval = None\<rparr>,
                     shown = [], issued = reqs\<rparr>))"
  by (simp add: audit_button_def audit_result_all_updated split: option.splits sum.splits prod.splits)

text \<open>
  C2. In an audit run the extracted data and the evaluation are set together or not at
  all. When the extraction request raises, when its answer does not parse, or when the
  evaluation request raises, the audit result is as it was. When all three succeed, the
  audit result holds the new pair and both translated entries are \<open>None\<close>. Whatever
  happens, the audit result after the run is the old one or a new pair with the
  translated entries reset.
\<close>

theorem audit_button_atomic:
  "(\<forall>e. chat (ExtractionRequest text) = Inl e \<longrightarrow>
      state_after (audit_button chat loads (Some text) api_key s) = s)
   \<and> (\<forall>resp e. chat (ExtractionRequest text) = Inr resp \<and> loads resp = Inl e \<longrightarrow>
      state_after (audit_button chat loads (Some text) api_key s) = s)
   \<and> (\<forall>resp d e. chat (ExtractionRequest text) = Inr resp \<and> loads resp = Inr d
          \<and> chat (EvaluationRequest d) = Inl e \<longrightarrow>
      state_after (audit_button chat loads (Some text) api_key s) = s)
   \<and> (\<forall>resp d m. text \<noteq> [] \<and> \<not> key_missing api_key
          \<and> chat (ExtractionRequest text) = Inr resp \<and> loads resp = Inr d
          \<and> chat (EvaluationRequest d) = Inr m \<longrightarrow>
      state_after (audit_button chat loads (Some text) api_key s)
        = \<lparr>extracted_data = Some d, evaluation_markdown = Some m,
           translated_data = None, translated_eval = None\<rparr>)
   \<and> (state_after (audit_button chat loads report_text api_key s) = s
      \<or> (\<exists>d m. state_after (audit_button chat loads report_text api_key s)
            = \<lparr>extracted_data = Some d, evaluation_markdown = Some m,
               translated_data = None, translated_eval = None\<rparr>))"
  by (auto simp: audit_button_cases audit_pipeline_def split: option.splits sum.splits)


theorem audit_button_atomic_witness:
  "''report'' \<noteq> [] \<and> \<not> key_missing (Some ''sk-demo'')
   \<and> capability_demo (ExtractionRequest ''report'') = Inr demo_response
   \<and> loads_demo demo_response = Inr demo_extracted
   \<and> capability_demo (EvaluationRequest demo_extracted) = Inr ''## 8D audit''
   \<and> state_after (audit_button capability_demo loads_demo (Some ''report'') (Some ''sk-demo'')
         committed_demo)
       = \<lparr>extracted_data = Some demo_extracted, evaluation_markdown = Some ''## 8D audit'',
          translated_data = None, translated_eval = None\<rparr>
   \<and> capability_down (ExtractionRequest ''report'') = Inl (ApiError ''connection refused'')
   \<and> state_after (audit_button capability_down loads_demo (Some ''report'') (Some ''sk-demo'')
         committed_demo)
       = committed_demo"
proof -
  have a: "''report'' \<noteq> []" "\<not> key_missing (Some ''sk-demo'')"
    by (simp_all add: key_missing_def)
  have b: "capability_demo (ExtractionRequest ''report'') = Inr demo_response"
    "loads_demo demo_response = Inr demo_extracted"
    "capability_demo (EvaluationRequest demo_extracted) = Inr ''## 8D audit''"
    by (simp_all add: capability_demo_def loads_demo_def)
  have c: "capability_down (ExtractionRequest ''report'') = Inl (ApiError ''connection refused'')"
    by (simp add: capability_down_def)
  show ?thesis
    using a b c
      audit_button_atomic [of capability_demo "''report''" loads_demo "Some ''sk-demo''"
        committed_demo "Some ''report''"]
      audit_button_atomic [of capability_down "''report''" loads_demo "Some ''sk-demo''"
        committed_demo "Some ''report''"]
    by blast
qed

section \<open>Properties of the re-split\<close>

lemma store_translation_found:
  assumes "find_sep AI_EVAL_SEP content = Some (a, b)"
  shows "store_translation content s =
           (s\<lparr>translated_data := Some a, translated_eval := Some b\<rparr>, [SuccessTranslated])"
  using assms by (simp add: store_translation_def py_split1_def AI_EVAL_SEP_not_Nil)

lemma store_translation_not_found:
  assumes "find_sep AI_EVAL_SEP content = None"
  shows "store_translation content s =
           (s\<lparr>translated_data := None, translated_eval := Some content\<rparr>,
            [WarningStructureLost, SuccessTranslated])"
  using assms by (simp add: store_translation_def py_split1_def AI_EVAL_SEP_not_Nil)

lemma py_count_positive:
  assumes "0 < py_count content sep" and "sep \<noteq> []"
  obtains a b where "find_sep sep content = Some (a, b)" and "py_count content sep = Suc (py_count b sep)"
  using assms by (auto simp: py_count_unfold [OF assms(2), of content] split: option.splits)

lemma py_count_examples:
  "py_count (''A'' @ AI_EVAL_SEP @ ''B'') AI_EVAL_SEP = 1"
  "py_count ''A and B'' AI_EVAL_SEP = 0"
  "py_count (''A'' @ AI_EVAL_SEP @ ''B'' @ AI_EVAL_SEP @ ''C'') AI_EVAL_SEP = 2"
  by code_simp+

text \<open>
  C8. Occurrences of the delimiter are counted as \<open>str.count\<close> counts them. When the
  translated text contains the delimiter exactly once, the two translated entries are the
  text before it and the text after it, neither of which contains the delimiter, and no
  warning is shown. When it does not contain the delimiter, the structured entry is
  \<open>None\<close>, the evaluation entry is the whole text, and the warning that the structure was
  lost is shown, followed by the success message: no error is reported.
\<close>

theorem resplit_once_or_never:
  "(py_count content AI_EVAL_SEP = 1 \<longrightarrow>
      (\<exists>a b. content = a @ AI_EVAL_SEP @ b
         \<and> \<not> sublist AI_EVAL_SEP a \<and> \<not> sublist AI_EVAL_SEP b
         \<and> store_translation content s =
             (s\<lparr>translated_data := Some a, translated_eval := Some b\<rparr>, [SuccessTranslated])))
   \<and> (py_count content AI_EVAL_SEP = 0 \<longrightarrow>
      \<not> sublist AI_EVAL_SEP content
      \<and> store_translation content s =
          (s\<lparr>translated_data := None, translated_eval := Some content\<rparr>,
           [WarningStructureLost, SuccessTranslated]))"
proof (intro conjI impI)
  assume one: "py_count content AI_EVAL_SEP = 1"
  then have "0 < py_count content AI_EVAL_SEP" by simp
  then obtain a b where f: "find_sep AI_EVAL_SEP content = Some (a, b)"
    and c: "py_count content AI_EVAL_SEP = Suc (py_count b AI_EVAL_SEP)"
    using AI_EVAL_SEP_not_Nil by (rule py_count_positive)
  from one c have "py_count b AI_EVAL_SEP = 0" by simp
  then have "\<not> sublist AI_EVAL_SEP b" by (simp add: py_count_zero_iff AI_EVAL_SEP_not_Nil)
  moreover have "\<not> sublist AI_EVAL_SEP a" using f AI_EVAL_SEP_not_Nil by (rule find_sep_before_free)
  moreover have "content = a @ AI_EVAL_SEP @ b" using f by (rule find_sep_Some_append)
  moreover note store_translation_found [OF f, of s]
  ultimately show "\<exists>a b. content = a @ AI_EVAL_SEP @ b
         \<and> \<not> sublist AI_EVAL_SEP a \<and> \<not> sublist AI_EVAL_SEP b
         \<and> store_translation content s =
             (s\<lparr>translated_data := Some a, translated_eval := Some b\<rparr>, [SuccessTranslated])"
    by blast
next
  assume zero: "py_count content AI_EVAL_SEP = 0"
  then show "\<not> sublist AI_EVAL_SEP content" by (simp add: py_count_zero_iff AI_EVAL_SEP_not_Nil)
  then have "find_sep AI_EVAL_SEP content = None" by (simp add: find_sep_None_iff)
  then show "store_translation content s =
          (s\<lparr>translated_data := None, translated_eval := Some content\<rparr>,
           [WarningStructureLost, SuccessTranslated])"
    by (rule store_translation_not_found)
qed

theorem resplit_once_or_never_witness:
  "py_count (''A'' @ AI_EVAL_SEP @ ''B'') AI_EVAL_SEP = 1
   \<and> (\<exists>a b. ''A'' @ AI_EVAL_SEP @ ''B'' = a @ AI_EVAL_SEP @ b
         \<and> \<not> sublist AI_EVAL_SEP a \<and> \<not> sublist AI_EVAL_SEP b
         \<and> store_translation (''A'' @ AI_EVAL_SEP @ ''B'') initial_audit_result =
             (initial_audit_result\<lparr>translated_data := Some a, translated_eval := Some b\<rparr>,
              [SuccessTranslated]))
   \<and> py_count ''A and B'' AI_EVAL_SEP = 0
   \<and> \<not> sublist AI_EVAL_SEP ''A and B''
   \<and> store_translation ''A and B'' initial_audit_result =
       (initial_audit_result\<lparr>translated_data := None, translated_eval := Some ''A and B''\<rparr>,
        [WarningStructureLost, SuccessTranslated])"
  using py_count_examples(1,2)
    resplit_once_or_never [of "''A'' @ AI_EVAL_SEP @ ''B''" initial_audit_result]
    resplit_once_or_never [of "''A and B''" initial_audit_result]
  by blast

text \<open>
  C9. When the translated text contains the delimiter two or more times (counted as
  \<open>str.count\<close> counts them), the split is stored as a successful one: the structured entry
  is the text before the first occurrence, the evaluation entry is everything after that
  occurrence, the other occurrences are all still in the evaluation entry, and only the
  success message is shown, without the warning.
\<close>

theorem resplit_at_first_of_many:
  assumes "2 \<le> py_count content AI_EVAL_SEP"
  shows "\<exists>a b. content = a @ AI_EVAL_SEP @ b
           \<and> (\<forall>a' b'. content = a' @ AI_EVAL_SEP @ b' \<longrightarrow> length a \<le> length a')
           \<and> py_count b AI_EVAL_SEP = py_count content AI_EVAL_SEP - 1
           \<and> sublist AI_EVAL_SEP b
           \<and> store_translation content s =
               (s\<lparr>translated_data := Some a, translated_eval := Some b\<rparr>, [SuccessTranslated])"
proof -
  from assms have "0 < py_count content AI_EVAL_SEP" by simp
  then obtain a b where f: "find_sep AI_EVAL_SEP content = Some (a, b)"
    and c: "py_count content AI_EVAL_SEP = Suc (py_count b AI_EVAL_SEP)"
    using AI_EVAL_SEP_not_Nil by (rule py_count_positive)
  from c have rest: "py_count b AI_EVAL_SEP = py_count content AI_EVAL_SEP - 1" by simp
  with assms have "py_count b AI_EVAL_SEP \<noteq> 0" by simp
  then have "sublist AI_EVAL_SEP b" by (simp add: py_count_zero_iff AI_EVAL_SEP_not_Nil)
  moreover have "content = a @ AI_EVAL_SEP @ b" using f by (rule find_sep_Some_append)
  moreover have "\<forall>a' b'. content = a' @ AI_EVAL_SEP @ b' \<longrightarrow> length a \<le> length a'"
    using find_sep_first [OF f] by blast
  moreover note store_translation_found [OF f, of s] rest
  ultimately show ?thesis by blast
qed

theorem resplit_at_first_of_many_witness:
  "2 \<le> py_count (''A'' @ AI_EVAL_SEP @ ''B'' @ AI_EVAL_SEP @ ''C'') AI_EVAL_SEP
   \<and> (\<exists>a b. ''A'' @ AI_EVAL_SEP @ ''B'' @ AI_EVAL_SEP @ ''C'' = a @ AI_EVAL_SEP @ b
         \<and> (\<forall>a' b'. ''A'' @ AI_EVAL_SEP @ ''B'' @ AI_EVAL_SEP @ ''C'' = a' @ AI_EVAL_SEP @ b'
                \<longrightarrow> length a \<le> length a')
         \<and> py_count b AI_EVAL_SEP
             = py_count (''A'' @ AI_EVAL_SEP @ ''B'' @ AI_EVAL_SEP @ ''C'') AI_EVAL_SEP - 1
         \<and> sublist AI_EVAL_SEP b
         \<and> store_translation (''A'' @ AI_EVAL_SEP @ ''B'' @ AI_EVAL_SEP @ ''C'') committed_demo =
             (committed_demo\<lparr>translated_data := Some a, translated_eval := Some b\<rparr>,
              [SuccessTranslated]))"
proof -
  have h: "2 \<le> py_count (''A'' @ AI_EVAL_SEP @ ''B'' @ AI_EVAL_SEP @ ''C'') AI_EVAL_SEP"
    unfolding py_count_examples(3) by simp
  from resplit_at_first_of_many [OF h, of committed_demo] h show ?thesis by blast
qed

lemma store_translation_examples:
  "store_translation (''A'' @ AI_EVAL_SEP @ ''B'') initial_audit_result =
     (initial_audit_result\<lparr>translated_data := Some ''A'', translated_eval := Some ''B''\<rparr>,
      [SuccessTranslated])"
  "store_translation (''A'' @ AI_EVAL_SEP @ ''B'' @ AI_EVAL_SEP @ ''C'') initial_audit_result =
     (initial_audit_result\<lparr>translated_data := Some ''A'',
        translated_eval := Some (''B'' @ AI_EVAL_SEP @ ''C'')\<rparr>,
      [SuccessTranslated])"
  by (simp_all add: store_translation_def py_split1_def AI_EVAL_SEP_def)


section \<open>Properties of a failing action\<close>

lemma store_translation_keeps_pair:
  assumes "store_translation content s = (s', ns)"
  shows "extracted_data s' = extracted_data s \<and> evaluation_markdown s' = evaluation_markdown s"
  using assms
  by (auto simp: store_translation_def split: sum.splits if_splits)

lemma store_translation_notices:
  assumes "store_translation content s = (s', ns)"
  shows "ErrorApiKeyMissing \<notin> set ns \<and> ErrorTranslationFailed err \<notin> set ns
         \<and> (Uncaught e \<in> set ns \<longrightarrow> s' = s)"
  using assms
  by (auto simp: store_translation_def split: sum.splits if_splits)

lemma translate_button_keeps_pair:
  "extracted_data (state_after (translate_button fmt chat lang api_key s)) = extracted_data s
   \<and> evaluation_markdown (state_after (translate_button fmt chat lang api_key s))
       = evaluation_markdown s"
  using store_translation_keeps_pair
  by (auto simp: translate_button_def split: option.splits sum.splits prod.splits)

lemma translate_button_failure:
  "(ErrorTranslationFailed err \<in> set (shown (translate_button fmt chat lang api_key s)) \<longrightarrow>
       state_after (translate_button fmt chat lang api_key s)
         = s\<lparr>translated_data := None, translated_eval := None\<rparr>)
   \<and> (ErrorApiKeyMissing \<in> set (shown (translate_button fmt chat lang api_key s)) \<longrightarrow>
       state_after (translate_button fmt chat lang api_key s) = s)
   \<and> (Uncaught e \<in> set (shown (translate_button fmt chat lang api_key s)) \<longrightarrow>
       state_after (translate_button fmt chat lang api_key s) = s)"
  using store_translation_notices
  by (auto simp: translate_button_def split: option.splits sum.splits prod.splits)

lemma audit_button_failure:
  "n \<in> set (shown (audit_button chat loads report_text api_key s)) \<Longrightarrow>
     state_after (audit_button chat loads report_text api_key s) = s"
  by (auto simp: audit_button_def split: option.splits sum.splits prod.splits if_splits)

text \<open>
  The claim C3, that a failing later action leaves all committed state unchanged, fails
  for a translation whose call raises: the error branch assigns \<open>None\<close> to both translated
  entries, so a translated pair stored before is lost.
\<close>

theorem failed_translation_counterexample:
  "translated_data committed_demo = Some ''# core (en)''
   \<and> translated_data (state_after (translate_button fmt_demo capability_down lang_english
         (Some ''sk-demo'') committed_demo)) = None
   \<and> state_after (translate_button fmt_demo capability_down lang_english
         (Some ''sk-demo'') committed_demo) \<noteq> committed_demo"
  by (simp add: translate_button_def committed_demo_def demo_extracted_def key_missing_def
      data_markdown_values_def py_get_def translate_report_def capability_down_def
      lang_english_def lang_zh_default_def lang_japanese_def Let_def)


text \<open>
  C3, amended. An audit run that shows any error leaves the whole audit result unchanged.
  The translate button never changes the extracted data and the evaluation. When the
  translation call fails, both translated entries are reset to \<open>None\<close> and nothing else
  changes; when the API key is missing, the audit result is unchanged.
\<close>

theorem failed_action_keeps_audit_pair:
  "(\<forall>n. n \<in> set (shown (audit_button chat loads report_text api_key s)) \<longrightarrow>
       state_after (audit_button chat loads report_text api_key s) = s)
   \<and> extracted_data (state_after (translate_button fmt chat lang api_key s)) = extracted_data s
   \<and> evaluation_markdown (state_after (translate_button fmt chat lang api_key s))
       = evaluation_markdown s
   \<and> (\<forall>err. ErrorTranslationFailed err \<in> set (shown (translate_button fmt chat lang api_key s))
        \<longrightarrow> state_after (translate_button fmt chat lang api_key s)
              = s\<lparr>translated_data := None, translated_eval := None\<rparr>)
   \<and> (ErrorApiKeyMissing \<in> set (shown (translate_button fmt chat lang api_key s))
        \<longrightarrow> state_after (translate_button fmt chat lang api_key s) = s)"
  using audit_button_failure [of _ chat loads report_text api_key s]
    translate_button_keeps_pair [of fmt chat lang api_key s]
    translate_button_failure [of _ fmt chat lang api_key s]
  by blast

lemma translate_button_down_demo:
  "shown (translate_button fmt_demo capability_down lang_english (Some ''sk-demo'') committed_demo)
     = [ErrorTranslationFailed (TranslateCallFailed (ApiError ''connection refused''))]"
  by (simp add: translate_button_def committed_demo_def demo_extracted_def key_missing_def
      data_markdown_values_def py_get_def translate_report_def capability_down_def
      lang_english_def lang_zh_default_def lang_japanese_def Let_def)

lemma audit_button_down_demo:
  "shown (audit_button capability_down loads_demo (Some ''report'') (Some ''sk-demo'') committed_demo)
     = [ErrorAuditFailed (ApiError ''connection refused'')]"
  by (simp add: audit_button_def audit_pipeline_def capability_down_def key_missing_def)

lemma translate_button_no_key_demo:
  "shown (translate_button fmt_demo capability_demo lang_english None committed_demo)
     = [ErrorApiKeyMissing]"
  by (simp add: translate_button_def committed_demo_def demo_extracted_def key_missing_def)

theorem failed_action_keeps_audit_pair_witness:
  "ErrorAuditFailed (ApiError ''connection refused'')
     \<in> set (shown (audit_button capability_down loads_demo (Some ''report'') (Some ''sk-demo'')
          committed_demo))
   \<and> state_after (audit_button capability_down loads_demo (Some ''report'') (Some ''sk-demo'')
        committed_demo) = committed_demo
   \<and> ErrorTranslationFailed (TranslateCallFailed (ApiError ''connection refused''))
     \<in> set (shown (translate_button fmt_demo capability_down lang_english (Some ''sk-demo'')
          committed_demo))
   \<and> state_after (translate_button fmt_demo capability_down lang_english (Some ''sk-demo'')
        committed_demo)
       = committed_demo\<lparr>translated_data := None, translated_eval := None\<rparr>
   \<and> ErrorApiKeyMissing
     \<in> set (shown (translate_button fmt_demo capability_demo lang_english None committed_demo))
   \<and> state_after (translate_button fmt_demo capability_demo lang_english None committed_demo)
       = committed_demo"
proof -
  have a: "ErrorAuditFailed (ApiError ''connection refused'')
     \<in> set (shown (audit_button capability_down loads_demo (Some ''report'') (Some ''sk-demo'')
          committed_demo))"
    unfolding audit_button_down_demo by simp
  have t: "ErrorTranslationFailed (TranslateCallFailed (ApiError ''connection refused''))
     \<in> set (shown (translate_button fmt_demo capability_down lang_english (Some ''sk-demo'')
          committed_demo))"
    unfolding translate_button_down_demo by simp
  have k: "ErrorApiKeyMissing
     \<in> set (shown (translate_button fmt_demo capability_demo lang_english None committed_demo))"
    unfolding translate_button_no_key_demo by simp
  show ?thesis
    using a t k
      failed_action_keeps_audit_pair [of capability_down loads_demo "Some ''report''"
        "Some ''sk-demo''" committed_demo fmt_demo lang_english]
      failed_action_keeps_audit_pair [of capability_demo loads_demo "Some ''report''"
        None committed_demo fmt_demo lang_english]
    by blast
qed

section \<open>Properties of the extraction\<close>

text \<open>
  The claim C1, that no key of the schema is ever missing from the result of an extraction
  whose response parses, fails: the parsed value is stored as it is, and a response with
  the team leader only gives a stored value without the other keys.
\<close>

theorem extraction_missing_keys_counterexample:
  "loads_demo demo_response = Inr demo_extracted
   \<and> extracted_data (state_after (audit_button capability_demo loads_demo (Some ''report'')
        (Some ''sk-demo'') initial_audit_result)) = Some demo_extracted
   \<and> \<not> json_has_key demo_extracted ''D8_Conclusion''
   \<and> \<not> json_has_key demo_extracted ''D3_ICA''"
  by (simp add: audit_button_def audit_pipeline_demo key_missing_def loads_demo_def
      json_has_key_def demo_extracted_def)

text \<open>
  C1, amended. For every audit run whose extraction response parses as JSON and whose
  evaluation succeeds, the stored extracted data is exactly the parsed value: a key that
  is absent from the response is absent from the stored value, and a value that is present
  is kept as it is. The defaults are supplied when the value is read: for an absent key
  the scalar read gives "N/A" and the list read gives the empty list.
\<close>

theorem extraction_stores_parsed_value:
  assumes "text \<noteq> []" and "\<not> key_missing api_key"
    and "chat (ExtractionRequest text) = Inr resp" and "loads resp = Inr v"
    and "chat (EvaluationRequest v) = Inr ev"
  shows "extracted_data (state_after (audit_button chat loads (Some text) api_key s)) = Some v
       \<and> (\<forall>members key. v = JObj members \<and> map_of members key = None \<longrightarrow>
            \<not> json_has_key v key
            \<and> read_scalar v key = Inr (JStr ''N/A'')
            \<and> read_actions v key = Inr (JList []))
       \<and> (\<forall>members key x. v = JObj members \<and> map_of members key = Some x \<longrightarrow>
            read_scalar v key = Inr x \<and> read_actions v key = Inr x)"
  using assms
  by (auto simp: audit_button_def audit_pipeline_def read_scalar_def read_actions_def
      py_get_def json_has_key_def)

theorem extraction_stores_parsed_value_witness:
  "''report'' \<noteq> [] \<and> \<not> key_missing (Some ''sk-demo'')
   \<and> capability_demo (ExtractionRequest ''report'') = Inr demo_response
   \<and> loads_demo demo_response = Inr demo_extracted
   \<and> capability_demo (EvaluationRequest demo_extracted) = Inr ''## 8D audit''
   \<and> extracted_data (state_after (audit_button capability_demo loads_demo (Some ''report'')
        (Some ''sk-demo'') initial_audit_result)) = Some demo_extracted
   \<and> demo_extracted = JObj [(''D1_TeamLeader'', JStr ''Li Wei'')]
   \<and> map_of [(''D1_TeamLeader'', JStr ''Li Wei'')] ''D8_Conclusion'' = None
   \<and> read_scalar demo_extracted ''D8_Conclusion'' = Inr (JStr ''N/A'')
   \<and> read_actions demo_extracted ''D8_Conclusion'' = Inr (JList [])
   \<and> map_of [(''D1_TeamLeader'', JStr ''Li Wei'')] ''D1_TeamLeader'' = Some (JStr ''Li Wei'')
   \<and> read_scalar demo_extracted ''D1_TeamLeader'' = Inr (JStr ''Li Wei'')"
proof -
  have a: "''report'' \<noteq> []" "\<not> key_missing (Some ''sk-demo'')"
    by (simp_all add: key_missing_def)
  have b: "capability_demo (ExtractionRequest ''report'') = Inr demo_response"
    "loads_demo demo_response = Inr demo_extracted"
    "capability_demo (EvaluationRequest demo_extracted) = Inr ''## 8D audit''"
    by (simp_all add: capability_demo_def loads_demo_def)
  have c: "demo_extracted = JObj [(''D1_TeamLeader'', JStr ''Li Wei'')]"
    "map_of [(''D1_TeamLeader'', JStr ''Li Wei'')] ''D8_Conclusion'' = None"
    "map_of [(''D1_TeamLeader'', JStr ''Li Wei'')] ''D1_TeamLeader'' = Some (JStr ''Li Wei'')"
    by (simp_all add: demo_extracted_def)
  show ?thesis
    using a b c
      extraction_stores_parsed_value [of "''report''" "Some ''sk-demo''" capability_demo
        demo_response loads_demo demo_extracted "''## 8D audit''" initial_audit_result]
    by blast
qed

section \<open>Properties of the adoption\<close>

lemma adopt_whys_append:
  "adopt_whys (xs @ ys) fw ws =
     (case adopt_whys xs fw ws of Inl e \<Rightarrow> Inl e | Inr ws' \<Rightarrow> adopt_whys ys fw ws')"
  by (induction xs arbitrary: ws) auto

lemma adopt_whys_upt:
  "n \<le> length ws \<Longrightarrow>
     adopt_whys [0..<n] fw ws
       = Inr (take (min n (length fw)) fw @ drop (min n (length fw)) ws)"
proof (induction n)
  case 0
  then show ?case by simp
next
  case (Suc n)
  then have n: "n < length ws" by simp
  show ?case
  proof (cases "n < length fw")
    case True
    have "(take n fw @ drop n ws)[n := fw ! n] = take (Suc n) fw @ drop (Suc n) ws"
      using True n
      by (simp add: list_update_append take_Suc_conv_app_nth Cons_nth_drop_Suc [symmetric] min_def)
    with Suc True n show ?thesis
      by (simp add: adopt_whys_append min_def)
  next
    case False
    with Suc n show ?thesis
      by (simp add: adopt_whys_append min_def)
  qed
qed

text \<open>
  C6. For a pending suggestion whose \<open>five_whys\<close> has \<open>k\<close> entries, \<open>k\<close> at most 5, and the
  five recorded whys: adopting succeeds, the first \<open>k\<close> recorded whys become the entries
  of the suggestion in their order, the recorded whys from \<open>k\<close> on are as they were, the
  root cause becomes the root cause of the suggestion, and no suggestion is pending
  afterwards.
\<close>

theorem adopt_overwrites_prefix:
  assumes "ai_analysis d = Some suggestion"
    and "length (five_whys suggestion) = k" and "k \<le> 5"
    and "length (whys d) = 5"
  shows "\<exists>d'. adopt_button d = Inr d'
           \<and> whys d' = five_whys suggestion @ drop k (whys d)
           \<and> length (whys d') = 5
           \<and> (\<forall>i. i < k \<longrightarrow> whys d' ! i = five_whys suggestion ! i)
           \<and> (\<forall>i. k \<le> i \<and> i < 5 \<longrightarrow> whys d' ! i = whys d ! i)
           \<and> d4.root_cause d' = ai_res.root_cause suggestion
           \<and> ai_analysis d' = None"
proof -
  have "adopt_whys [0..<5] (five_whys suggestion) (whys d)
          = Inr (five_whys suggestion @ drop k (whys d))"
    using adopt_whys_upt [of 5 "whys d" "five_whys suggestion"] assms by (simp add: min_def)
  with assms show ?thesis
    by (auto simp: adopt_button_def nth_append)
qed

theorem adopt_overwrites_prefix_witness:
  "ai_analysis d4_demo = Some suggestion_demo
   \<and> length (five_whys suggestion_demo) = 3 \<and> (3::nat) \<le> 5
   \<and> length (whys d4_demo) = 5
   \<and> (\<exists>d'. adopt_button d4_demo = Inr d'
         \<and> whys d' = [JStr ''weld current low'', JStr ''setting drifted'', JStr ''no check'',
                       JStr ''w4'', JStr ''w5'']
         \<and> d4.root_cause d' = JStr ''no periodic check of the weld current''
         \<and> ai_analysis d' = None)"
proof -
  have a: "ai_analysis d4_demo = Some suggestion_demo"
    and b: "length (five_whys suggestion_demo) = 3"
    and c: "(3::nat) \<le> 5"
    and e: "length (whys d4_demo) = 5"
    by (simp_all add: d4_demo_def suggestion_demo_def)
  have f: "five_whys suggestion_demo @ drop 3 (whys d4_demo)
             = [JStr ''weld current low'', JStr ''setting drifted'', JStr ''no check'',
                JStr ''w4'', JStr ''w5'']"
    "ai_res.root_cause suggestion_demo = JStr ''no periodic check of the weld current''"
    by (simp_all add: d4_demo_def suggestion_demo_def)
  from adopt_overwrites_prefix [OF a b c e] obtain d' where
    "adopt_button d4_demo = Inr d'"
    "whys d' = five_whys suggestion_demo @ drop 3 (whys d4_demo)"
    "d4.root_cause d' = ai_res.root_cause suggestion_demo"
    "ai_analysis d' = None"
    by blast
  with f have "adopt_button d4_demo = Inr d'
         \<and> whys d' = [JStr ''weld current low'', JStr ''setting drifted'', JStr ''no check'',
                       JStr ''w4'', JStr ''w5'']
         \<and> d4.root_cause d' = JStr ''no periodic check of the weld current''
         \<and> ai_analysis d' = None"
    by simp
  with a b c e show ?thesis by blast
qed

text \<open>Without a pending suggestion the handler changes nothing.\<close>

lemma adopt_button_nothing_pending:
  "ai_analysis d = None \<Longrightarrow> adopt_button d = Inr d"
  by (simp add: adopt_button_def)

section \<open>Properties of the Word export\<close>


















lemma docx_demo_texts:
  "xml_text_ok ''N/A''"
  "xml_text_ok ''Li Wei''"
  "xml_text_ok ''sort the stock''"
  "xml_text_ok ''check the weld current''"
  by code_simp+






lemma create_word_document_examples:
  "create_word_document docx_run_text_ok docx_paragraph_ok (JObj report_complete) ''## 8D audit'' =
     Inr [CoreRow ''D1_TeamLeader'' (JStr ''Li Wei''), CoreRow ''D2_Problem'' (JStr ''N/A''),
          CoreRow ''D4_RootCause'' (JStr ''N/A''), CoreRow ''D8_Conclusion'' (JStr ''N/A''),
          ActionItem (JStr ''sort the stock''), ActionItem (JStr ''check the weld current''),
          VerificationLine (JStr ''N/A''), StandardizationLine (JStr ''N/A''),
          EvaluationSection ''## 8D audit'']"
  "create_word_document docx_run_text_ok docx_paragraph_ok (JObj [(''D3_ICA'', JNum 5)]) ''## 8D audit''
     = Inl TypeError"
  "create_word_document docx_run_text_ok docx_paragraph_ok (JList [JStr ''x'']) ''## 8D audit''
     = Inl AttributeError"
  by (simp_all add: create_word_document_def core_keys_def py_get_def docx_demo_texts
      docx_paragraph_ok_def report_complete_def action_list_def)

end
